theory Spec2Isabelle
  imports Complex_Main "HOL-Library.AList"
begin

section \<open>The feed engine of \<^verbatim>\<open>src/core/feed/algorithm.py\<close>\<close>

text \<open>
  A shallow embedding of the class \<^verbatim>\<open>FeedAlgorithm\<close>. Conventions:
  \<^item> a leading underscore of a Python name is dropped (\<^verbatim>\<open>_check_viral_threshold\<close> is
    \<open>check_viral_threshold\<close>), since an Isabelle name cannot start with one;
  \<^item> Python floats are read as real numbers, Python ints as \<open>int\<close>;
  \<^item> a dict is an association list in insertion order, with distinct keys;
  \<^item> \<^verbatim>\<open>datetime.utcnow()\<close> is a reading of the clock, in seconds, handed to the
    function that takes it;
  \<^item> methods that the class calls but does not define, and the two data sources it
    defines as stubs, are fields of the record \<open>helpers\<close> or explicit arguments.
\<close>

subsection \<open>Python values\<close>

datatype py_error = AttributeError | KeyError | ZeroDivisionError | ValueError | IndexError

text \<open>\<^verbatim>\<open>d.get(k, dflt)\<close>.\<close>

definition dict_get :: "('k \<times> 'v) list \<Rightarrow> 'k \<Rightarrow> 'v \<Rightarrow> 'v" where
  "dict_get d k dflt = (case map_of d k of None \<Rightarrow> dflt | Some v \<Rightarrow> v)"

text \<open>\<^verbatim>\<open>d[k]\<close> on a plain dict: a missing key raises.\<close>

definition dict_getitem :: "('k \<times> 'v) list \<Rightarrow> 'k \<Rightarrow> py_error + 'v" where
  "dict_getitem d k = (case map_of d k of None \<Rightarrow> Inl KeyError | Some v \<Rightarrow> Inr v)"

text \<open>
  A \<^verbatim>\<open>defaultdict(float)\<close>: reading a missing key gives \<open>0.0\<close> (and stores it);
  \<^verbatim>\<open>d[k] += w\<close> and \<^verbatim>\<open>d[k] *= c\<close> read that default and store the result, a new key
  going to the end of the dict.
\<close>

definition dd_float :: "('k \<times> real) list \<Rightarrow> 'k \<Rightarrow> real" where
  "dd_float d k = dict_get d k 0"

definition dd_iadd :: "('k \<times> real) list \<Rightarrow> 'k \<Rightarrow> real \<Rightarrow> ('k \<times> real) list" where
  "dd_iadd d k w = AList.update k (dd_float d k + w) d"

definition dd_imul :: "('k \<times> real) list \<Rightarrow> 'k \<Rightarrow> real \<Rightarrow> ('k \<times> real) list" where
  "dd_imul d k c = AList.update k (dd_float d k * c) d"

text \<open>\<^verbatim>\<open>a / b\<close> on numbers: true division, which raises on a zero divisor.\<close>

definition py_truediv :: "real \<Rightarrow> real \<Rightarrow> py_error + real" where
  "py_truediv a b = (if b = 0 then Inl ZeroDivisionError else Inr (a / b))"

subsection \<open>Data model\<close>

text \<open>
  A prompt is a dict; only the keys the engine reads are kept, each of them optional.
  \<open>created_at\<close> is a point in time, in seconds.
\<close>

record prompt =
  creator_id :: "string option"
  template :: "string option"
  effectiveness_score :: "real option"
  usage_count :: "int option"
  remix_count :: "int option"
  unique_users :: "int option"
  trending_score :: "real option"
  created_at :: "real option"

text \<open>\<^verbatim>\<open>prompt.get(key, dflt)\<close> on one of these keys.\<close>

definition get_or :: "'a option \<Rightarrow> 'a \<Rightarrow> 'a" where
  "get_or field dflt = (case field of None \<Rightarrow> dflt | Some v \<Rightarrow> v)"

text \<open>\<^verbatim>\<open>prompt[key]\<close> on one of these keys.\<close>

definition getitem :: "'a option \<Rightarrow> py_error + 'a" where
  "getitem field = (case field of None \<Rightarrow> Inl KeyError | Some v \<Rightarrow> Inr v)"

text \<open>The truth value of a prompt dict: an empty dict is false.\<close>

definition prompt_truthy :: "prompt \<Rightarrow> bool" where
  "prompt_truthy p \<longleftrightarrow>
     creator_id p \<noteq> None \<or> template p \<noteq> None \<or> effectiveness_score p \<noteq> None \<or>
     usage_count p \<noteq> None \<or> remix_count p \<noteq> None \<or> unique_users p \<noteq> None \<or>
     trending_score p \<noteq> None \<or> created_at p \<noteq> None"

text \<open>The dict built by \<^verbatim>\<open>record_interaction\<close>; \<open>'v\<close> is the opaque metadata.\<close>

record 'v interaction =
  i_prompt_id :: string
  i_timestamp :: real
  i_type :: string
  i_metadata :: 'v

text \<open>One value of \<^verbatim>\<open>self.user_interactions\<close>; \<open>categories\<close> is a \<^verbatim>\<open>defaultdict(float)\<close>.\<close>

record 'v user_data =
  views :: "'v interaction list"
  uses :: "'v interaction list"
  remixes :: "'v interaction list"
  skips :: "'v interaction list"
  categories :: "(string \<times> real) list"

text \<open>The mutable attributes set by \<^verbatim>\<open>__init__\<close>.\<close>

record 'v engine =
  user_interactions :: "(string \<times> 'v user_data) list"
  trending_patterns :: "(string \<times> real) list"
  emerging_creators :: "string set"

definition default_user_data :: "'v user_data" where
  "default_user_data =
     \<lparr>views = [], uses = [], remixes = [], skips = [], categories = []\<rparr>"

definition init :: "'v engine" where
  "init = \<lparr>user_interactions = [], trending_patterns = [], emerging_creators = {}\<rparr>"

definition recommendation_weights :: "(string \<times> real) list" where
  "recommendation_weights =
     [(''effectiveness'', 0.3), (''novelty'', 0.2), (''viral_potential'', 0.2),
      (''user_affinity'', 0.15), (''recency'', 0.1), (''creator_trust'', 0.05)]"

definition viral_thresholds :: "(string \<times> real) list" where
  "viral_thresholds =
     [(''remix_rate'', 0.1), (''share_rate'', 0.05), (''completion_rate'', 0.8)]"

text \<open>
  \<^verbatim>\<open>self.user_interactions[user_id]\<close>: the dict is a \<open>defaultdict\<close>, so a user that
  is not in it yet is stored with the default value.
\<close>

definition user_interactions_getitem ::
  "(string \<times> 'v user_data) list \<Rightarrow> string \<Rightarrow> 'v user_data \<times> (string \<times> 'v user_data) list" where
  "user_interactions_getitem ui user_id =
     (case map_of ui user_id of
        Some ud \<Rightarrow> (ud, ui)
      | None \<Rightarrow> (default_user_data, ui @ [(user_id, default_user_data)]))"

subsection \<open>Trend tracking\<close>

definition weight_map :: "(string \<times> real) list" where
  "weight_map =
     [(''view'', 0.1), (''use'', 0.5), (''remix'', 2.0), (''share'', 1.5), (''skip'', - 0.3)]"

text \<open>The loop \<^verbatim>\<open>for pid in list(self.trending_patterns.keys())\<close>.\<close>

fun decay_loop :: "'k list \<Rightarrow> ('k \<times> real) list \<Rightarrow> ('k \<times> real) list" where
  "decay_loop [] tp = tp"
| "decay_loop (pid # pids) tp =
     (let tp1 = dd_imul tp pid 0.99
      in if dd_float tp1 pid < 0.01 then decay_loop pids (AList.delete pid tp1)
         else decay_loop pids tp1)"

definition update_trending_patterns ::
  "(string \<times> real) list \<Rightarrow> string \<Rightarrow> string \<Rightarrow> (string \<times> real) list" where
  "update_trending_patterns tp prompt_id interaction_type =
     (let weight = dict_get weight_map interaction_type 0;
          tp1 = dd_iadd tp prompt_id weight
      in decay_loop (map fst tp1) tp1)"

definition handle_viral_prompt :: "(string \<times> real) list \<Rightarrow> string \<Rightarrow> (string \<times> real) list" where
  "handle_viral_prompt tp prompt_id = dd_imul tp prompt_id 2.0"

text \<open>\<^verbatim>\<open>_get_prompt_data\<close> as the source defines it.\<close>

definition get_prompt_data :: "string \<Rightarrow> prompt option" where
  "get_prompt_data prompt_id = None"

text \<open>
  The body of \<^verbatim>\<open>_check_viral_threshold\<close> over the lookup it calls; the state it can
  change is the trend map.
\<close>

definition check_viral_threshold_with ::
  "(string \<Rightarrow> prompt option) \<Rightarrow> (string \<times> real) list \<Rightarrow> string
     \<Rightarrow> py_error + (string \<times> real) list" where
  "check_viral_threshold_with lookup tp prompt_id =
     (case lookup prompt_id of
        None \<Rightarrow> Inr tp
      | Some prompt \<Rightarrow>
          if \<not> prompt_truthy prompt then Inr tp
          else
            let usage_count = get_or (usage_count prompt) 0;
                remix_count = get_or (remix_count prompt) 0
            in if usage_count > 0 then
                 (case py_truediv (of_int remix_count) (of_int usage_count) of
                    Inl e \<Rightarrow> Inl e
                  | Inr remix_rate \<Rightarrow>
                      (case dict_getitem viral_thresholds ''remix_rate'' of
                         Inl e \<Rightarrow> Inl e
                       | Inr threshold \<Rightarrow>
                           if remix_rate > threshold
                           then Inr (handle_viral_prompt tp prompt_id)
                           else Inr tp))
               else Inr tp)"

definition check_viral_threshold ::
  "(string \<times> real) list \<Rightarrow> string \<Rightarrow> py_error + (string \<times> real) list" where
  "check_viral_threshold = check_viral_threshold_with get_prompt_data"

subsection \<open>Recording an interaction\<close>

text \<open>
  \<^verbatim>\<open>_update_category_affinities(user_id, prompt_id, weight)\<close> is called by
  \<^verbatim>\<open>record_interaction\<close> but defined nowhere in the repository; it is an argument
  here, a function on \<^verbatim>\<open>self.user_interactions\<close>.
\<close>

type_synonym 'v affinity_update =
  "string \<Rightarrow> string \<Rightarrow> real \<Rightarrow> (string \<times> 'v user_data) list \<Rightarrow> (string \<times> 'v user_data) list"

definition record_interaction ::
  "'v affinity_update \<Rightarrow> real \<Rightarrow> 'v engine \<Rightarrow> string \<Rightarrow> string \<Rightarrow> string \<Rightarrow> 'v
     \<Rightarrow> py_error + 'v engine" where
  "record_interaction update_category_affinities now eng user_id prompt_id interaction_type metadata =
     (let interaction = \<lparr>i_prompt_id = prompt_id, i_timestamp = now,
                          i_type = interaction_type, i_metadata = metadata\<rparr>;
          (user_data, ui) = user_interactions_getitem (user_interactions eng) user_id;
          ui' =
            (if interaction_type = ''view'' then
               AList.update user_id (user_data\<lparr>views := views user_data @ [interaction]\<rparr>) ui
             else if interaction_type = ''use'' then
               update_category_affinities user_id prompt_id 1.0
                 (AList.update user_id (user_data\<lparr>uses := uses user_data @ [interaction]\<rparr>) ui)
             else if interaction_type = ''remix'' then
               update_category_affinities user_id prompt_id 2.0
                 (AList.update user_id (user_data\<lparr>remixes := remixes user_data @ [interaction]\<rparr>) ui)
             else if interaction_type = ''skip'' then
               update_category_affinities user_id prompt_id (- 0.5)
                 (AList.update user_id (user_data\<lparr>skips := skips user_data @ [interaction]\<rparr>) ui)
             else ui);
          tp = update_trending_patterns (trending_patterns eng) prompt_id interaction_type
      in case check_viral_threshold tp prompt_id of
           Inl e \<Rightarrow> Inl e
         | Inr tp' \<Rightarrow> Inr (eng\<lparr>user_interactions := ui', trending_patterns := tp'\<rparr>))"

subsection \<open>Viral potential and scoring\<close>

text \<open>
  The two ratios under the comment \<^verbatim>\<open># Viral indicators\<close> of
  \<^verbatim>\<open>_calculate_viral_potential\<close>: \<open>remix_rate\<close> and \<open>user_retention\<close>.
\<close>

definition viral_indicators :: "prompt \<Rightarrow> py_error + real \<times> real" where
  "viral_indicators prompt =
     (let usage_count = get_or (usage_count prompt) 0;
          remix_count = get_or (remix_count prompt) 0;
          unique_users = get_or (unique_users prompt) 0
      in case py_truediv (of_int remix_count) (of_int (max usage_count 1)) of
           Inl e \<Rightarrow> Inl e
         | Inr remix_rate \<Rightarrow>
             (case py_truediv (of_int unique_users) (of_int (max usage_count 1)) of
                Inl e \<Rightarrow> Inl e
              | Inr user_retention \<Rightarrow> Inr (remix_rate, user_retention)))"

text \<open>\<open>now\<close> is the reading of \<^verbatim>\<open>datetime.utcnow()\<close> taken inside the function.\<close>

definition calculate_viral_potential :: "real \<Rightarrow> prompt \<Rightarrow> py_error + real" where
  "calculate_viral_potential now prompt =
     (case viral_indicators prompt of
        Inl e \<Rightarrow> Inl e
      | Inr (remix_rate, user_retention) \<Rightarrow>
          (let trending_momentum = get_or (trending_score prompt) 0
           in (case getitem (created_at prompt) of
                 Inl e \<Rightarrow> Inl e
               | Inr created \<Rightarrow>
                   (let age_hours = (now - created) / 3600;
                        recency_boost = (if age_hours < 24 then 1.0 else 0.8);
                        viral_score = 0.4 * min (remix_rate * 10) 1.0 + 0.3 * user_retention
                                      + 0.2 * trending_momentum + 0.1 * recency_boost
                    in Inr viral_score))))"

text \<open>The dict returned by \<^verbatim>\<open>_build_user_profile\<close>; \<open>'v\<close> stands for an opaque value.\<close>

record 'v user_profile =
  p_user_id :: string
  category_preferences :: "(string \<times> real) list"
  interaction_patterns :: 'v
  skill_level :: real
  exploration_appetite :: real
  time_patterns :: 'v

text \<open>
  The methods that \<^verbatim>\<open>FeedAlgorithm\<close> calls and the repository defines nowhere. Each is
  a field, with the arguments of its call site; \<open>track_impressions\<close> may change the engine.
  \<open>cold_start_appetite\<close> and \<open>appetite_policy\<close> are the two parts of
  \<open>calculate_exploration_appetite\<close> below.
\<close>

record 'v helpers =
  gather_candidates :: "string \<Rightarrow> int \<Rightarrow> prompt list"
  track_impressions :: "string \<Rightarrow> prompt list \<Rightarrow> 'v engine \<Rightarrow> 'v engine"
  analyze_interaction_patterns :: "'v user_data \<Rightarrow> 'v"
  estimate_skill_level :: "'v user_data \<Rightarrow> real"
  analyze_time_patterns :: "'v user_data \<Rightarrow> 'v"
  cold_start_appetite :: real
  appetite_policy :: "'v user_data \<Rightarrow> real"
  count_similar_seen :: "prompt \<Rightarrow> 'v user_profile \<Rightarrow> real"
  calculate_user_affinity :: "prompt \<Rightarrow> 'v user_profile \<Rightarrow> real"
  get_creator_trust_score :: "string \<Rightarrow> real"

text \<open>The loop over \<^verbatim>\<open>self.recommendation_weights.items()\<close>.\<close>

fun weighted_sum :: "(string \<times> real) list \<Rightarrow> (string \<times> real) list \<Rightarrow> real \<Rightarrow> real" where
  "weighted_sum [] scores final_score = final_score"
| "weighted_sum ((factor, weight) # ws) scores final_score =
     weighted_sum ws scores (final_score + weight * dict_get scores factor 0.0)"

text \<open>
  \<open>now1\<close> is the clock reading taken by \<^verbatim>\<open>_calculate_viral_potential\<close>, \<open>now2\<close> the one
  taken afterwards for the recency score.
\<close>

definition calculate_prompt_score ::
  "'v helpers \<Rightarrow> real \<Rightarrow> real \<Rightarrow> prompt \<Rightarrow> 'v user_profile \<Rightarrow> py_error + real" where
  "calculate_prompt_score h now1 now2 prompt user_profile =
     (let effectiveness = get_or (effectiveness_score prompt) 0.5;
          seen_similar = count_similar_seen h prompt user_profile
      in case py_truediv 1.0 (1.0 + seen_similar) of
           Inl e \<Rightarrow> Inl e
         | Inr novelty \<Rightarrow>
       (case calculate_viral_potential now1 prompt of
           Inl e \<Rightarrow> Inl e
         | Inr viral_potential \<Rightarrow>
       (let user_affinity = calculate_user_affinity h prompt user_profile
        in case getitem (created_at prompt) of
           Inl e \<Rightarrow> Inl e
         | Inr created \<Rightarrow>
       (let age_hours = (now2 - created) / 3600;
            recency = exp (- age_hours / 168)
        in case getitem (creator_id prompt) of
           Inl e \<Rightarrow> Inl e
         | Inr creator \<Rightarrow>
       (let creator_trust = get_creator_trust_score h creator;
            scores = [(''effectiveness'', effectiveness), (''novelty'', novelty),
                      (''viral_potential'', viral_potential), (''user_affinity'', user_affinity),
                      (''recency'', recency), (''creator_trust'', creator_trust)];
            final_score = weighted_sum recommendation_weights scores 0.0
        in Inr (if exploration_appetite user_profile > 0.7 then final_score * 1.2
                else final_score))))))"

subsection \<open>The user profile\<close>

text \<open>
  Modelled from the spec: \<^verbatim>\<open>_calculate_exploration_appetite\<close> is called by
  \<^verbatim>\<open>_build_user_profile\<close> and missing from the repository. The spec gives a new user
  (no recorded interaction) a default appetite and leaves the formula for every other user
  open (a tunable policy); both are taken from \<open>helpers\<close>.
\<close>

definition calculate_exploration_appetite :: "'v helpers \<Rightarrow> 'v user_data \<Rightarrow> real" where
  "calculate_exploration_appetite h user_data =
     (if views user_data = [] \<and> uses user_data = [] \<and> remixes user_data = [] \<and>
         skips user_data = []
      then cold_start_appetite h else appetite_policy h user_data)"

definition build_user_profile ::
  "'v helpers \<Rightarrow> 'v engine \<Rightarrow> string \<Rightarrow> 'v user_profile \<times> 'v engine" where
  "build_user_profile h eng user_id =
     (let (user_data, ui) = user_interactions_getitem (user_interactions eng) user_id;
          profile = \<lparr>p_user_id = user_id,
                     category_preferences = categories user_data,
                     interaction_patterns = analyze_interaction_patterns h user_data,
                     skill_level = estimate_skill_level h user_data,
                     exploration_appetite = calculate_exploration_appetite h user_data,
                     time_patterns = analyze_time_patterns h user_data\<rparr>
      in (profile, eng\<lparr>user_interactions := ui\<rparr>))"

subsection \<open>The diversity filter\<close>

definition lower_char :: "char \<Rightarrow> char" where
  "lower_char c =
     (let n = of_char c :: nat in if 65 \<le> n \<and> n \<le> 90 then char_of (n + 32) else c)"

text \<open>\<^verbatim>\<open>s.lower()\<close>, on ASCII text.\<close>

definition lower :: "string \<Rightarrow> string" where
  "lower s = map lower_char s"

fun startswith :: "string \<Rightarrow> string \<Rightarrow> bool" where
  "startswith s [] = True"
| "startswith [] (c # sub) = False"
| "startswith (d # s) (c # sub) = (d = c \<and> startswith s sub)"

text \<open>\<^verbatim>\<open>sub in s\<close> on strings.\<close>

fun py_in :: "string \<Rightarrow> string \<Rightarrow> bool" where
  "py_in sub [] = (sub = [])"
| "py_in sub (d # s) = (startswith (d # s) sub \<or> py_in sub s)"

definition get_prompt_category :: "prompt \<Rightarrow> string" where
  "get_prompt_category prompt =
     (let template = lower (get_or (template prompt) [])
      in if py_in ''startup'' template \<or> py_in ''business'' template then ''business''
         else if py_in ''code'' template \<or> py_in ''programming'' template then ''technical''
         else if py_in ''write'' template \<or> py_in ''story'' template then ''creative''
         else if py_in ''analyze'' template \<or> py_in ''data'' template then ''analytical''
         else ''general'')"

text \<open>
  \<^verbatim>\<open>seen_creators.count\<close>, where \<open>seen_creators\<close> was made by \<^verbatim>\<open>set()\<close>: a Python set
  has no attribute \<open>count\<close>, so looking the method up raises, before the argument of the
  call is evaluated.
\<close>

definition set_count :: "'a set \<Rightarrow> py_error + ('a \<Rightarrow> int)" where
  "set_count s = Inl AttributeError"

text \<open>
  The loop of \<^verbatim>\<open>_apply_diversity_filter\<close>; \<open>seen_categories\<close> is a
  \<^verbatim>\<open>defaultdict(int)\<close>.
\<close>

fun diversity_loop ::
  "(real \<times> prompt) list \<Rightarrow> int \<Rightarrow> prompt list \<Rightarrow> string set \<Rightarrow> (string \<times> int) list
     \<Rightarrow> py_error + prompt list" where
  "diversity_loop [] target_count selected seen_creators seen_categories = Inr selected"
| "diversity_loop ((score, prompt) # rest) target_count selected seen_creators seen_categories =
     (let max_per_creator = 2; max_per_category = 5
      in case set_count seen_creators of
           Inl e \<Rightarrow> Inl e
         | Inr count \<Rightarrow>
             (case getitem (creator_id prompt) of
                Inl e \<Rightarrow> Inl e
              | Inr creator \<Rightarrow>
                  if count creator \<ge> max_per_creator
                  then diversity_loop rest target_count selected seen_creators seen_categories
                  else
                    let category = get_prompt_category prompt
                    in if dict_get seen_categories category 0 \<ge> max_per_category
                       then diversity_loop rest target_count selected seen_creators seen_categories
                       else
                         let selected' = selected @ [prompt];
                             seen_creators' = insert creator seen_creators;
                             seen_categories' =
                               AList.update category (dict_get seen_categories category 0 + 1)
                                 seen_categories
                         in if int (length selected') \<ge> target_count then Inr selected'
                            else diversity_loop rest target_count selected' seen_creators'
                                   seen_categories'))"

definition apply_diversity_filter :: "(real \<times> prompt) list \<Rightarrow> int \<Rightarrow> py_error + prompt list" where
  "apply_diversity_filter scored_candidates target_count =
     diversity_loop scored_candidates target_count [] {} []"

subsection \<open>Exploration\<close>

text \<open>\<^verbatim>\<open>int(x)\<close> on a float: truncation towards zero.\<close>

definition py_int :: "real \<Rightarrow> int" where
  "py_int x = (if x < 0 then \<lceil>x\<rceil> else \<lfloor>x\<rfloor>)"

text \<open>The local \<open>exploration_slots\<close> of \<^verbatim>\<open>_inject_exploration\<close>.\<close>

definition exploration_slots :: "int \<Rightarrow> int" where
  "exploration_slots target_count = max 2 (py_int (of_int target_count * 0.1))"

text \<open>\<^verbatim>\<open>_get_exploration_candidates\<close> as the source defines it.\<close>

definition get_exploration_candidates :: "int \<Rightarrow> prompt list" where
  "get_exploration_candidates count = []"

text \<open>
  \<^verbatim>\<open>random.randint(lo, hi)\<close>: an empty range raises; \<open>r\<close> is the entropy of this draw,
  and every value of the range is the result for some \<open>r\<close>.
\<close>

definition randint :: "int \<Rightarrow> int \<Rightarrow> nat \<Rightarrow> py_error + int" where
  "randint lo hi r = (if hi < lo then Inl ValueError else Inr (lo + int r mod (hi - lo + 1)))"

text \<open>\<^verbatim>\<open>xs[i] = v\<close>, with Python's negative indices.\<close>

definition list_setitem :: "'a list \<Rightarrow> int \<Rightarrow> 'a \<Rightarrow> py_error + 'a list" where
  "list_setitem xs i v =
     (let n = int (length xs); j = (if i < 0 then n + i else i)
      in if 0 \<le> j \<and> j < n then Inr (xs[nat j := v]) else Inl IndexError)"

text \<open>\<^verbatim>\<open>xs[:n]\<close>, with Python's negative bound.\<close>

definition slice_to :: "'a list \<Rightarrow> int \<Rightarrow> 'a list" where
  "slice_to xs n = (if n < 0 then take (nat (int (length xs) + n)) xs else take (nat n) xs)"

text \<open>
  The loop of \<^verbatim>\<open>_inject_exploration\<close>; \<open>rnd k\<close> is the entropy of the \<open>k\<close>-th draw.
\<close>

fun inject_loop ::
  "int \<Rightarrow> (nat \<Rightarrow> nat) \<Rightarrow> nat \<Rightarrow> 'a list \<Rightarrow> 'a list \<Rightarrow> py_error + 'a list" where
  "inject_loop target_count rnd k [] feed = Inr feed"
| "inject_loop target_count rnd k (prompt # prompts) feed =
     (if int (length feed) \<ge> target_count then
        (case randint 0 (target_count - 1) (rnd k) of
           Inl e \<Rightarrow> Inl e
         | Inr index \<Rightarrow>
             (case list_setitem feed index prompt of
                Inl e \<Rightarrow> Inl e
              | Inr feed' \<Rightarrow> inject_loop target_count rnd (Suc k) prompts feed'))
      else inject_loop target_count rnd k prompts (feed @ [prompt]))"

text \<open>The body of \<^verbatim>\<open>_inject_exploration\<close> over the exploration source it calls.\<close>

definition inject_exploration_with ::
  "(int \<Rightarrow> 'a list) \<Rightarrow> (nat \<Rightarrow> nat) \<Rightarrow> 'a list \<Rightarrow> int \<Rightarrow> py_error + 'a list" where
  "inject_exploration_with source rnd feed target_count =
     (let exploration_prompts = source (exploration_slots target_count)
      in case inject_loop target_count rnd 0 exploration_prompts feed of
           Inl e \<Rightarrow> Inl e
         | Inr feed' \<Rightarrow> Inr (slice_to feed' target_count))"

definition inject_exploration :: "(nat \<Rightarrow> nat) \<Rightarrow> prompt list \<Rightarrow> int \<Rightarrow> py_error + prompt list" where
  "inject_exploration = inject_exploration_with get_exploration_candidates"

subsection \<open>The feed\<close>

text \<open>
  The scoring loop of \<^verbatim>\<open>get_feed\<close>; \<open>clock k\<close> is the \<open>k\<close>-th reading of
  \<^verbatim>\<open>datetime.utcnow()\<close> during the call, two readings for each candidate.
\<close>

fun score_loop ::
  "'v helpers \<Rightarrow> (nat \<Rightarrow> real) \<Rightarrow> nat \<Rightarrow> 'v user_profile \<Rightarrow> prompt list
     \<Rightarrow> py_error + (real \<times> prompt) list" where
  "score_loop h clock k user_profile [] = Inr []"
| "score_loop h clock k user_profile (prompt # candidates) =
     (case calculate_prompt_score h (clock k) (clock (Suc k)) prompt user_profile of
        Inl e \<Rightarrow> Inl e
      | Inr score \<Rightarrow>
          (case score_loop h clock (Suc (Suc k)) user_profile candidates of
             Inl e \<Rightarrow> Inl e
           | Inr scored \<Rightarrow> Inr ((score, prompt) # scored)))"

text \<open>
  \<^verbatim>\<open>scored_candidates.sort(key=lambda x: x[0], reverse=True)\<close>: descending and stable.
\<close>

definition sort_by_score :: "(real \<times> prompt) list \<Rightarrow> (real \<times> prompt) list" where
  "sort_by_score scored = sort_key (\<lambda>x. - fst x) scored"

definition get_feed ::
  "'v helpers \<Rightarrow> (nat \<Rightarrow> real) \<Rightarrow> (nat \<Rightarrow> nat) \<Rightarrow> 'v engine \<Rightarrow> string \<Rightarrow> int
     \<Rightarrow> py_error + prompt list \<times> 'v engine" where
  "get_feed h clock rnd eng user_id count =
     (let (user_profile, eng1) = build_user_profile h eng user_id;
          candidates = gather_candidates h user_id (count * 5)
      in case score_loop h clock 0 user_profile candidates of
           Inl e \<Rightarrow> Inl e
         | Inr scored_candidates \<Rightarrow>
             (case apply_diversity_filter (sort_by_score scored_candidates) count of
                Inl e \<Rightarrow> Inl e
              | Inr diverse_feed \<Rightarrow>
                  (case inject_exploration rnd diverse_feed count of
                     Inl e \<Rightarrow> Inl e
                   | Inr final_feed \<Rightarrow>
                       Inr (final_feed, track_impressions h user_id final_feed eng1))))"

subsection \<open>The formulas of the specification\<close>


text \<open>\<^verbatim>\<open>round(x)\<close> of Python 3: to the nearest integer, a tie going to the even one.\<close>

definition py_round :: "real \<Rightarrow> int" where
  "py_round x =
     (let f = \<lfloor>x\<rfloor>; d = x - of_int f
      in if d < 1 / 2 then f else if 1 / 2 < d then f + 1 else if even f then f else f + 1)"

text \<open>
  The slot count as the specification words it: \<^verbatim>\<open>max(2, round(0.1 * target_count))\<close>.
\<close>

definition spec_exploration_slots :: "int \<Rightarrow> int" where
  "spec_exploration_slots target_count = max 2 (py_round (0.1 * of_int target_count))"

subsection \<open>Runs and concrete inputs\<close>

text \<open>\<open>n\<close> calls of \<^verbatim>\<open>_check_viral_threshold\<close> for the same item, one after the other.\<close>

fun repeat_check ::
  "(string \<Rightarrow> prompt option) \<Rightarrow> nat \<Rightarrow> (string \<times> real) list \<Rightarrow> string
     \<Rightarrow> py_error + (string \<times> real) list" where
  "repeat_check lookup 0 tp prompt_id = Inr tp"
| "repeat_check lookup (Suc n) tp prompt_id =
     (case check_viral_threshold_with lookup tp prompt_id of
        Inl e \<Rightarrow> Inl e
      | Inr tp' \<Rightarrow> repeat_check lookup n tp' prompt_id)"

text \<open>An affinity update that leaves the user data as it is.\<close>

definition keep_affinities :: "'v affinity_update" where
  "keep_affinities user_id prompt_id weight ui = ui"

text \<open>
  The item of the specification's example, used 100 times and remixed 15 times, and a
  lookup that finds it.
\<close>

definition viral_item :: prompt where
  "viral_item = \<lparr>creator_id = None, template = None, effectiveness_score = None,
     usage_count = Some 100, remix_count = Some 15, unique_users = None,
     trending_score = None, created_at = None\<rparr>"

definition viral_lookup :: "string \<Rightarrow> prompt option" where
  "viral_lookup prompt_id = Some viral_item"

text \<open>An item that was never used but has 3 remixes and 2 users, and a lookup that finds it.\<close>

definition unused_item :: prompt where
  "unused_item = \<lparr>creator_id = Some ''alice'', template = Some ''write a story'',
     effectiveness_score = Some 0.5, usage_count = Some 0, remix_count = Some 3,
     unique_users = Some 2, trending_score = Some 0, created_at = Some 0\<rparr>"

definition unused_lookup :: "string \<Rightarrow> prompt option" where
  "unused_lookup prompt_id = Some unused_item"

text \<open>An ordinary item, created at time 0.\<close>

definition example_item :: prompt where
  "example_item = \<lparr>creator_id = Some ''alice'', template = Some ''Write a story'',
     effectiveness_score = Some 0.9, usage_count = Some 10, remix_count = Some 1,
     unique_users = Some 5, trending_score = Some 0, created_at = Some 0\<rparr>"

text \<open>Helpers for concrete runs: the item store holds \<open>example_item\<close> alone.\<close>

definition example_helpers :: "unit helpers" where
  "example_helpers =
     \<lparr>gather_candidates = (\<lambda>user_id limit. [example_item]),
      track_impressions = (\<lambda>user_id feed eng. eng),
      analyze_interaction_patterns = (\<lambda>user_data. ()),
      estimate_skill_level = (\<lambda>user_data. 0),
      analyze_time_patterns = (\<lambda>user_data. ()),
      cold_start_appetite = 0.9,
      appetite_policy = (\<lambda>user_data. 0.5),
      count_similar_seen = (\<lambda>prompt user_profile. 0),
      calculate_user_affinity = (\<lambda>prompt user_profile. 0),
      get_creator_trust_score = (\<lambda>creator. 0.5)\<rparr>"


text \<open>A clock that reads \<open>t\<close> at every reading, and a random source without entropy.\<close>

definition clock_at :: "real \<Rightarrow> nat \<Rightarrow> real" where
  "clock_at t k = t"

definition no_entropy :: "nat \<Rightarrow> nat" where
  "no_entropy k = 0"

text \<open>What the decay loop does to one entry of the trend map.\<close>

definition decayed :: "real \<Rightarrow> real option" where
  "decayed v = (if v * 0.99 < 0.01 then None else Some (v * 0.99))"

definition decay_entry :: "real option \<Rightarrow> real option" where
  "decay_entry e = (case e of None \<Rightarrow> None | Some v \<Rightarrow> decayed v)"

section \<open>Facts about the model\<close>

subsection \<open>The trend map\<close>

lemma map_of_dd_imul: "map_of (dd_imul d k c) = (map_of d)(k \<mapsto> dd_float d k * c)"
  by (simp add: dd_imul_def update_conv')

lemma map_of_dd_iadd: "map_of (dd_iadd d k w) = (map_of d)(k \<mapsto> dd_float d k + w)"
  by (simp add: dd_iadd_def update_conv')

lemma dd_float_map_of: "dd_float d k = (case map_of d k of None \<Rightarrow> 0 | Some v \<Rightarrow> v)"
  by (simp add: dd_float_def dict_get_def)

lemma map_of_decay_loop:
  "distinct ks \<Longrightarrow>
   map_of (decay_loop ks tp) q = (if q \<in> set ks then decayed (dd_float tp q) else map_of tp q)"
proof (induction ks arbitrary: tp)
  case Nil
  then show ?case by simp
next
  case (Cons pid pids)
  then have d: "distinct pids" and n: "pid \<notin> set pids" by simp_all
  show ?case
  proof (cases "dd_float tp pid * 0.99 < 0.01")
    case True
    then show ?thesis
      using Cons.IH [OF d, of "AList.delete pid (dd_imul tp pid 0.99)"] n
      by (auto simp: Let_def dd_float_map_of map_of_dd_imul delete_conv' decayed_def)
  next
    case False
    then show ?thesis
      using Cons.IH [OF d, of "dd_imul tp pid 0.99"] n
      by (auto simp: Let_def dd_float_map_of map_of_dd_imul decayed_def)
  qed
qed


lemma map_of_update_trending_patterns:
  assumes "distinct (map fst tp)"
  shows "map_of (update_trending_patterns tp p kind) q =
         decay_entry (map_of (dd_iadd tp p (dict_get weight_map kind 0)) q)"
proof -
  let ?tp1 = "dd_iadd tp p (dict_get weight_map kind 0)"
  have d: "distinct (map fst ?tp1)"
    using assms by (simp add: dd_iadd_def distinct_update)
  have "q \<in> set (map fst ?tp1) \<longleftrightarrow> map_of ?tp1 q \<noteq> None"
    by (metis map_of_eq_None_iff set_map)
  then show ?thesis
    using map_of_decay_loop [OF d, of ?tp1 q]
    by (auto simp: update_trending_patterns_def Let_def decay_entry_def dd_float_map_of
        split: option.splits)
qed

lemma check_viral_threshold_noop: "check_viral_threshold tp p = Inr tp"
  by (simp add: check_viral_threshold_def check_viral_threshold_with_def get_prompt_data_def)

lemma record_interaction_result:
  "record_interaction uca now eng user_id prompt_id kind md =
     Inr (eng\<lparr>user_interactions :=
                (let interaction = \<lparr>i_prompt_id = prompt_id, i_timestamp = now,
                                     i_type = kind, i_metadata = md\<rparr>;
                     (user_data, ui) = user_interactions_getitem (user_interactions eng) user_id
                 in if kind = ''view'' then
                      AList.update user_id (user_data\<lparr>views := views user_data @ [interaction]\<rparr>) ui
                    else if kind = ''use'' then
                      uca user_id prompt_id 1.0
                        (AList.update user_id (user_data\<lparr>uses := uses user_data @ [interaction]\<rparr>) ui)
                    else if kind = ''remix'' then
                      uca user_id prompt_id 2.0
                        (AList.update user_id (user_data\<lparr>remixes := remixes user_data @ [interaction]\<rparr>) ui)
                    else if kind = ''skip'' then
                      uca user_id prompt_id (- 0.5)
                        (AList.update user_id (user_data\<lparr>skips := skips user_data @ [interaction]\<rparr>) ui)
                    else ui),
              trending_patterns := update_trending_patterns (trending_patterns eng) prompt_id kind\<rparr>)"
  by (simp add: record_interaction_def check_viral_threshold_noop Let_def split: prod.splits)


lemma decayed_changes: "decayed v \<noteq> Some v"
  by (auto simp: decayed_def)

lemma decay_entry_unfold:
  "decay_entry e =
     (case e of None \<Rightarrow> None | Some v \<Rightarrow> if v * 0.99 < 0.01 then None else Some (v * 0.99))"
  by (simp add: decay_entry_def decayed_def split: option.splits)

lemma unknown_kind_weight:
  "kind \<notin> set [''view'', ''use'', ''remix'', ''skip'', ''share''] \<Longrightarrow> dict_get weight_map kind 0 = 0"
  by (simp add: dict_get_def weight_map_def)




lemma dd_float_handle_viral_prompt:
  "dd_float (handle_viral_prompt tp p) p = 2 * dd_float tp p"
  by (simp add: handle_viral_prompt_def dd_float_map_of map_of_dd_imul)

lemma check_viral_threshold_with_above:
  assumes "lookup prompt_id = Some prompt"
    and "0 < get_or (usage_count prompt) 0"
    and "(0.1::real) < of_int (get_or (remix_count prompt) 0) / of_int (get_or (usage_count prompt) 0)"
  shows "check_viral_threshold_with lookup tp prompt_id = Inr (handle_viral_prompt tp prompt_id)"
proof -
  have "usage_count prompt \<noteq> None"
    using assms(2) by (cases "usage_count prompt") (simp_all add: get_or_def)
  then have "prompt_truthy prompt" by (simp add: prompt_truthy_def)
  then show ?thesis
    using assms
    by (simp add: check_viral_threshold_with_def Let_def py_truediv_def dict_getitem_def
        viral_thresholds_def)
qed

lemma repeat_check_above:
  assumes "lookup prompt_id = Some prompt"
    and "0 < get_or (usage_count prompt) 0"
    and "(0.1::real) < of_int (get_or (remix_count prompt) 0) / of_int (get_or (usage_count prompt) 0)"
  shows "\<exists>tp'. repeat_check lookup n tp prompt_id = Inr tp' \<and>
           dd_float tp' prompt_id = 2 ^ n * dd_float tp prompt_id"
proof (induction n arbitrary: tp)
  case 0
  then show ?case by simp
next
  case (Suc n)
  obtain tp' where "repeat_check lookup n (handle_viral_prompt tp prompt_id) prompt_id = Inr tp'"
    and "dd_float tp' prompt_id = 2 ^ n * dd_float (handle_viral_prompt tp prompt_id) prompt_id"
    using Suc.IH [of "handle_viral_prompt tp prompt_id"] by (elim exE conjE)
  then show ?case
    by (simp add: check_viral_threshold_with_above [of lookup prompt_id prompt, OF assms]
        dd_float_handle_viral_prompt)
qed

lemma check_viral_item: "check_viral_threshold_with viral_lookup [(''p'', v)] ''p'' = Inr [(''p'', v * 2)]"
  by (simp add: check_viral_threshold_with_def viral_lookup_def viral_item_def prompt_truthy_def get_or_def
      py_truediv_def dict_getitem_def viral_thresholds_def handle_viral_prompt_def dd_imul_def
      dd_float_def dict_get_def)

lemma eval_unknown:
  "record_interaction keep_affinities 0
     \<lparr>user_interactions = [(''u'', default_user_data)], trending_patterns = [(''q'', 1)],
        emerging_creators = {}\<rparr> ''u'' ''p'' ''like'' () =
   Inr \<lparr>user_interactions = [(''u'', default_user_data)], trending_patterns = [(''q'', 0.99)],
        emerging_creators = {}\<rparr>"
proof -
  have t: "update_trending_patterns [(''q'', 1)] ''p'' ''like'' = [(''q'', 0.99)]"
    by (simp add: update_trending_patterns_def weight_map_def dict_get_def dd_iadd_def
        dd_imul_def dd_float_def)
  have u: "user_interactions_getitem [(''u'', default_user_data :: unit user_data)] ''u'' =
           (default_user_data, [(''u'', default_user_data)])"
    by (simp add: user_interactions_getitem_def)
  show ?thesis
    by (simp add: record_interaction_def t u check_viral_threshold_noop)
qed

subsection \<open>Ratios and scores\<close>

lemma viral_indicators_total:
  "viral_indicators prompt =
     Inr (of_int (get_or (remix_count prompt) 0) / of_int (max (get_or (usage_count prompt) 0) 1),
          of_int (get_or (unique_users prompt) 0) / of_int (max (get_or (usage_count prompt) 0) 1))"
  by (simp add: viral_indicators_def py_truediv_def Let_def max_def)

lemma weighted_sum_scores:
  "weighted_sum recommendation_weights
     [(''effectiveness'', e), (''novelty'', n), (''viral_potential'', v), (''user_affinity'', a),
      (''recency'', r), (''creator_trust'', t)] acc =
   acc + 0.3 * e + 0.2 * n + 0.2 * v + 0.15 * a + 0.1 * r + 0.05 * t"
  by (simp add: recommendation_weights_def dict_get_def)

lemma calculate_viral_potential_formula:
  assumes "created_at prompt = Some c"
  shows "calculate_viral_potential now prompt =
     Inr (0.4 * min (of_int (get_or (remix_count prompt) 0) / of_int (max (get_or (usage_count prompt) 0) 1) * 10) 1
          + 0.3 * (of_int (get_or (unique_users prompt) 0) / of_int (max (get_or (usage_count prompt) 0) 1))
          + 0.2 * get_or (trending_score prompt) 0
          + 0.1 * (if (now - c) / 3600 < 24 then 1 else 0.8))"
  by (simp add: calculate_viral_potential_def viral_indicators_total getitem_def assms Let_def)

lemma calculate_prompt_score_formula:
  assumes "created_at prompt = Some c" and "creator_id prompt = Some cr"
    and "count_similar_seen h prompt profile \<noteq> - 1"
  shows "calculate_prompt_score h now1 now2 prompt profile =
     Inr ((0.3 * get_or (effectiveness_score prompt) 0.5
           + 0.2 * (1 / (1 + count_similar_seen h prompt profile))
           + 0.2 * (0.4 * min (of_int (get_or (remix_count prompt) 0) / of_int (max (get_or (usage_count prompt) 0) 1) * 10) 1
                    + 0.3 * (of_int (get_or (unique_users prompt) 0) / of_int (max (get_or (usage_count prompt) 0) 1))
                    + 0.2 * get_or (trending_score prompt) 0
                    + 0.1 * (if (now1 - c) / 3600 < 24 then 1 else 0.8))
           + 0.15 * calculate_user_affinity h prompt profile
           + 0.1 * exp (- ((now2 - c) / 3600) / 168)
           + 0.05 * get_creator_trust_score h cr)
          * (if exploration_appetite profile > 0.7 then 1.2 else 1))"
proof -
  have n: "1 + count_similar_seen h prompt profile \<noteq> 0"
    using assms(3) by linarith
  show ?thesis
    unfolding calculate_prompt_score_def Let_def calculate_viral_potential_formula [OF assms(1)]
    using n by (simp add: py_truediv_def getitem_def assms(1,2) weighted_sum_scores)
qed

subsection \<open>The diversity filter and the feed\<close>

lemma diversity_loop_raises:
  "scored \<noteq> [] \<Longrightarrow> diversity_loop scored n selected cs cats = Inl AttributeError"
  by (cases scored) (auto simp: set_count_def)

lemma apply_diversity_filter_raises:
  "scored \<noteq> [] \<Longrightarrow> apply_diversity_filter scored n = Inl AttributeError"
  by (simp add: apply_diversity_filter_def diversity_loop_raises)

lemma score_loop_length:
  "score_loop h clock k profile candidates = Inr scored \<Longrightarrow> length scored = length candidates"
  by (induction candidates arbitrary: k scored) (auto split: sum.splits)

lemma sort_by_score_Nil: "sort_by_score scored = [] \<longleftrightarrow> scored = []"
proof -
  have "length (sort_by_score scored) = length scored"
    by (simp add: sort_by_score_def)
  then show ?thesis by (metis length_0_conv)
qed

lemma get_feed_raises:
  assumes "gather_candidates h user_id (count * 5) \<noteq> []"
  shows "\<exists>e. get_feed h clock rnd eng user_id count = Inl e"
proof -
  obtain profile eng1 where b: "build_user_profile h eng user_id = (profile, eng1)"
    by (cases "build_user_profile h eng user_id")
  show ?thesis
  proof (cases "score_loop h clock 0 profile (gather_candidates h user_id (count * 5))")
    case (Inl e)
    then show ?thesis by (simp add: get_feed_def b)
  next
    case (Inr scored)
    then have "scored \<noteq> []"
      using score_loop_length [OF Inr] assms by auto
    then have "sort_by_score scored \<noteq> []" by (simp add: sort_by_score_Nil)
    then show ?thesis
      by (simp add: get_feed_def b Inr apply_diversity_filter_raises)
  qed
qed

subsection \<open>Exploration injection\<close>

text \<open>
  For a target of at least 1 the injection loop never raises: a drawn index is below the
  target, which is at most the length of the feed when a position is overwritten. The feed
  it returns is cut to the target.
\<close>

lemma inject_loop_total:
  assumes "1 \<le> target_count"
  shows "\<exists>feed'. inject_loop target_count rnd k prompts feed = Inr feed' \<and>
           length feed' = max (length feed) (min (nat target_count) (length feed + length prompts))"
proof (induction prompts arbitrary: feed k)
  case Nil
  then show ?case by simp
next
  case (Cons p ps)
  show ?case
  proof (cases "target_count \<le> int (length feed)")
    case True
    have r: "randint 0 (target_count - 1) (rnd k) = Inr (int (rnd k) mod target_count)"
      using assms by (simp add: randint_def)
    have m: "int (rnd k) mod target_count < target_count"
      using assms by simp
    have i: "0 \<le> int (rnd k) mod target_count" "int (rnd k) mod target_count < int (length feed)"
      using assms apply simp
      using m True by linarith
    have s: "list_setitem feed (int (rnd k) mod target_count) p =
             Inr (feed[nat (int (rnd k) mod target_count) := p])"
      using i by (simp add: list_setitem_def Let_def)
    obtain feed' where
      "inject_loop target_count rnd (Suc k) ps (feed[nat (int (rnd k) mod target_count) := p]) = Inr feed'"
      "length feed' = max (length (feed[nat (int (rnd k) mod target_count) := p]))
         (min (nat target_count) (length (feed[nat (int (rnd k) mod target_count) := p]) + length ps))"
      using Cons.IH [of "Suc k" "feed[nat (int (rnd k) mod target_count) := p]"] by (elim exE conjE)
    then show ?thesis
      using True by (simp add: r s; linarith)
  next
    case False
    obtain feed' where
      "inject_loop target_count rnd k ps (feed @ [p]) = Inr feed'"
      "length feed' = max (length (feed @ [p])) (min (nat target_count) (length (feed @ [p]) + length ps))"
      using Cons.IH [of k "feed @ [p]"] by (elim exE conjE)
    then show ?thesis
      using False by (simp; linarith)
  qed
qed

lemma inject_exploration_with_length:
  assumes "1 \<le> target_count"
  shows "\<exists>feed' out. inject_loop target_count rnd 0 (source (exploration_slots target_count)) feed = Inr feed' \<and>
           inject_exploration_with source rnd feed target_count = Inr out \<and>
           length out = min (nat target_count) (length feed') \<and>
           int (length out) \<le> target_count"
proof -
  obtain feed' where f: "inject_loop target_count rnd 0 (source (exploration_slots target_count)) feed = Inr feed'"
    using inject_loop_total [OF assms, of rnd 0 "source (exploration_slots target_count)" feed]
    by (elim exE conjE)
  have "inject_exploration_with source rnd feed target_count = Inr (slice_to feed' target_count)"
    by (simp add: inject_exploration_with_def f)
  moreover have "length (slice_to feed' target_count) = min (nat target_count) (length feed')"
    using assms by (simp add: slice_to_def)
  moreover have "int (length (slice_to feed' target_count)) \<le> target_count"
    using assms by (simp add: slice_to_def)
  ultimately show ?thesis using f by simp
qed

section \<open>Properties\<close>

subsection \<open>The diversity filter raises on its first candidate\<close>

text \<open>
  Claim C1 says that the output of \<^verbatim>\<open>_apply_diversity_filter\<close> holds at most 2 items of
  one creator and at most 5 of one category. The source keeps the accepted creators in a
  \<^verbatim>\<open>set()\<close> and asks it for \<^verbatim>\<open>.count(...)\<close>, which a Python set does not have: on a list
  with one candidate and target 1 the call ends in \<open>AttributeError\<close> and returns no feed.
\<close>

theorem diversity_filter_attribute_error: "apply_diversity_filter [(0.9, example_item)] 1 = Inl AttributeError"
  by (simp add: apply_diversity_filter_def set_count_def)

subsection \<open>Viral amplification\<close>

text \<open>
  Claim C2, as amended. The source keeps no record of an amplification already made.
  Whenever the data looked up for the item has a positive usage count and a ratio
  \<open>remix_count / usage_count\<close> above 0.1, each call of \<^verbatim>\<open>_check_viral_threshold\<close> doubles the
  momentum of the item again, so \<open>n\<close> calls multiply it by \<open>2 ^ n\<close>. With the lookup
  \<^verbatim>\<open>_get_prompt_data\<close> of the source, which finds no item, a call changes nothing.
\<close>

theorem viral_check_amplifies_on_every_call:
  assumes "lookup prompt_id = Some prompt"
    and "0 < get_or (usage_count prompt) 0"
    and "(0.1::real) < of_int (get_or (remix_count prompt) 0) / of_int (get_or (usage_count prompt) 0)"
  shows "(\<exists>tp'. repeat_check lookup n tp prompt_id = Inr tp' \<and>
            dd_float tp' prompt_id = 2 ^ n * dd_float tp prompt_id) \<and>
         check_viral_threshold tp prompt_id = Inr tp"
  by (rule conjI [OF repeat_check_above [of lookup prompt_id prompt, OF assms]
        check_viral_threshold_noop])

text \<open>
  An instance: the item with 100 uses and 15 remixes, checked three times.
\<close>

theorem viral_check_amplifies_on_every_call_witness:
  "viral_lookup ''p'' = Some viral_item \<and>
   0 < get_or (usage_count viral_item) 0 \<and>
   (0.1::real) < of_int (get_or (remix_count viral_item) 0) / of_int (get_or (usage_count viral_item) 0) \<and>
   (\<exists>tp'. repeat_check viral_lookup 3 [(''p'', 1)] ''p'' = Inr tp' \<and> dd_float tp' ''p'' = 8)"
proof -
  have a: "viral_lookup ''p'' = Some viral_item" by (simp add: viral_lookup_def)
  have b: "0 < get_or (usage_count viral_item) 0" by (simp add: viral_item_def get_or_def)
  have c: "(0.1::real) < of_int (get_or (remix_count viral_item) 0) / of_int (get_or (usage_count viral_item) 0)"
    by (simp add: viral_item_def get_or_def)
  have "\<exists>tp'. repeat_check viral_lookup 3 [(''p'', 1)] ''p'' = Inr tp' \<and>
            dd_float tp' ''p'' = 2 ^ 3 * dd_float [(''p'', 1)] ''p''"
    by (rule conjunct1 [OF viral_check_amplifies_on_every_call [of viral_lookup "''p''" viral_item, OF a b c]])
  then have d: "\<exists>tp'. repeat_check viral_lookup 3 [(''p'', 1)] ''p'' = Inr tp' \<and> dd_float tp' ''p'' = 8"
    by (simp add: dd_float_def dict_get_def)
  show ?thesis by (rule conjI [OF a conjI [OF b conjI [OF c d]]])
qed

text \<open>
  Against claim C2 as stated: the ratio of the item stays at 0.15, and two checks in a row
  take its momentum from 1 to 2 and from 2 to 4; with the lookup of the source the check
  leaves it at 1.
\<close>

theorem viral_check_amplifies_twice:
  "check_viral_threshold_with viral_lookup [(''p'', 1)] ''p'' = Inr [(''p'', 2)] \<and>
   check_viral_threshold_with viral_lookup [(''p'', 2)] ''p'' = Inr [(''p'', 4)] \<and>
   check_viral_threshold [(''p'', 1)] ''p'' = Inr [(''p'', 1)]"
  using check_viral_item [of 1] check_viral_item [of 2] check_viral_threshold_noop [of "[(''p'', 1)]" "''p''"]
  by simp

subsection \<open>Ratios of an item that was never used\<close>

text \<open>
  Claim C3, as amended. For a candidate with usage count 0 no ratio raises
  \<open>ZeroDivisionError\<close>: \<^verbatim>\<open>_calculate_viral_potential\<close> divides by \<^verbatim>\<open>max(usage_count, 1)\<close>, so
  the remix rate is the remix count and the user retention is the number of unique users
  (0 only when these counts are 0), and \<^verbatim>\<open>_check_viral_threshold\<close> computes no ratio and
  leaves the trend map as it is.
\<close>

theorem zero_usage_ratios:
  assumes "get_or (usage_count prompt) 0 = 0"
    and "lookup prompt_id = Some prompt"
  shows "viral_indicators prompt =
           Inr (of_int (get_or (remix_count prompt) 0), of_int (get_or (unique_users prompt) 0)) \<and>
         calculate_viral_potential now prompt \<noteq> Inl ZeroDivisionError \<and>
         check_viral_threshold_with lookup tp prompt_id = Inr tp"
proof -
  have a: "viral_indicators prompt =
           Inr (of_int (get_or (remix_count prompt) 0), of_int (get_or (unique_users prompt) 0))"
    using assms(1) by (simp add: viral_indicators_total)
  have b: "calculate_viral_potential now prompt \<noteq> Inl ZeroDivisionError"
    by (simp add: calculate_viral_potential_def a getitem_def Let_def split: option.splits)
  have c: "check_viral_threshold_with lookup tp prompt_id = Inr tp"
    using assms by (simp add: check_viral_threshold_with_def Let_def)
  show ?thesis by (rule conjI [OF a conjI [OF b c]])
qed

text \<open>
  An instance: the item with no use, 3 remixes and 2 users.
\<close>

theorem zero_usage_ratios_witness:
  "get_or (usage_count unused_item) 0 = 0 \<and>
   unused_lookup ''p'' = Some unused_item \<and>
   viral_indicators unused_item = Inr (3, 2) \<and>
   calculate_viral_potential 0 unused_item \<noteq> Inl ZeroDivisionError \<and>
   check_viral_threshold_with unused_lookup [(''p'', 1)] ''p'' = Inr [(''p'', 1)]"
  using zero_usage_ratios [of unused_item unused_lookup "''p''" 0 "[(''p'', 1)]"]
  by (simp add: unused_item_def unused_lookup_def get_or_def)

text \<open>
  Against claim C3 as stated: for that item the two ratios are 3 and 2, not 0.
\<close>

theorem zero_usage_remix_rate_nonzero:
  "viral_indicators unused_item = Inr (3, 2) \<and> (3::real) \<noteq> 0 \<and> (2::real) \<noteq> 0"
  by (simp add: viral_indicators_total unused_item_def get_or_def)

subsection \<open>An unknown interaction kind\<close>

text \<open>
  Claim C4, as amended. A call of \<^verbatim>\<open>record_interaction\<close> with a kind outside view, use,
  remix, skip and share raises no error, appends to no interaction log and adds no weight,
  but it changes the state: a user without an entry gets the empty default entry, and every
  momentum of the trend map is multiplied by 0.99, the entries then below 0.01 being
  deleted.
\<close>

theorem unknown_kind_decays_trends:
  assumes "kind \<notin> set [''view'', ''use'', ''remix'', ''skip'', ''share'']"
    and "distinct (map fst (trending_patterns eng))"
  shows "\<exists>eng'. record_interaction uca now eng user_id prompt_id kind md = Inr eng' \<and>
           user_interactions eng' =
             (case map_of (user_interactions eng) user_id of
                Some ud \<Rightarrow> user_interactions eng
              | None \<Rightarrow> user_interactions eng @ [(user_id, default_user_data)]) \<and>
           (\<forall>q. map_of (trending_patterns eng') q =
              (case map_of (trending_patterns eng) q of
                 None \<Rightarrow> None
               | Some v \<Rightarrow> if v * 0.99 < 0.01 then None else Some (v * 0.99))) \<and>
           emerging_creators eng' = emerging_creators eng"
proof -
  let ?eng' = "eng\<lparr>user_interactions := snd (user_interactions_getitem (user_interactions eng) user_id),
                    trending_patterns := update_trending_patterns (trending_patterns eng) prompt_id kind\<rparr>"
  have k: "kind \<noteq> ''view''" "kind \<noteq> ''use''" "kind \<noteq> ''remix''" "kind \<noteq> ''skip''"
    using assms(1) by simp_all
  have r: "record_interaction uca now eng user_id prompt_id kind md = Inr ?eng'"
    by (simp add: record_interaction_result k split: prod.splits)
  have u: "user_interactions ?eng' =
             (case map_of (user_interactions eng) user_id of
                Some ud \<Rightarrow> user_interactions eng
              | None \<Rightarrow> user_interactions eng @ [(user_id, default_user_data)])"
    by (simp add: user_interactions_getitem_def split: option.splits)
  have t: "\<forall>q. map_of (trending_patterns ?eng') q =
              (case map_of (trending_patterns eng) q of
                 None \<Rightarrow> None
               | Some v \<Rightarrow> if v * 0.99 < 0.01 then None else Some (v * 0.99))"
    by (simp add: map_of_update_trending_patterns [OF assms(2)] unknown_kind_weight [OF assms(1)]
        decay_entry_unfold map_of_dd_iadd dd_float_map_of split: option.splits)
  have e: "emerging_creators ?eng' = emerging_creators eng" by simp
  show ?thesis
    by (rule exI [of _ ?eng']) (rule conjI [OF r conjI [OF u conjI [OF t e]]])
qed

text \<open>
  An instance: the kind \<open>like\<close>, a new user, and one tracked item \<open>q\<close>.
\<close>

theorem unknown_kind_decays_trends_witness:
  "''like'' \<notin> set [''view'', ''use'', ''remix'', ''skip'', ''share''] \<and>
   distinct (map fst [(''q'', 1::real)]) \<and>
   (\<exists>eng'. record_interaction keep_affinities 0
        \<lparr>user_interactions = [], trending_patterns = [(''q'', 1)], emerging_creators = {}\<rparr>
        ''u'' ''p'' ''like'' () = Inr eng' \<and>
      user_interactions eng' = [(''u'', default_user_data)] \<and>
      map_of (trending_patterns eng') ''q'' = Some 0.99 \<and>
      map_of (trending_patterns eng') ''p'' = None)"
proof -
  let ?e = "\<lparr>user_interactions = [], trending_patterns = [(''q'', 1::real)],
             emerging_creators = {}\<rparr> :: unit engine"
  have k: "''like'' \<notin> set [''view'', ''use'', ''remix'', ''skip'', ''share'']" by simp
  have d: "distinct (map fst (trending_patterns ?e))" by simp
  from unknown_kind_decays_trends [OF k d, of keep_affinities 0 "''u''" "''p''" "()"]
  obtain eng' where r: "record_interaction keep_affinities 0 ?e ''u'' ''p'' ''like'' () = Inr eng'"
    and u: "user_interactions eng' =
             (case map_of (user_interactions ?e) ''u'' of
                Some ud \<Rightarrow> user_interactions ?e
              | None \<Rightarrow> user_interactions ?e @ [(''u'', default_user_data)])"
    and a: "\<forall>q. map_of (trending_patterns eng') q =
              (case map_of (trending_patterns ?e) q of
                 None \<Rightarrow> None
               | Some v \<Rightarrow> if v * 0.99 < 0.01 then None else Some (v * 0.99))"
    by (elim exE conjE)
  have u': "user_interactions eng' = [(''u'', default_user_data)]"
    using u by simp
  have q: "map_of (trending_patterns eng') ''q'' = Some 0.99"
    using a [rule_format, of "''q''"] by simp
  have p: "map_of (trending_patterns eng') ''p'' = None"
    using a [rule_format, of "''p''"] by simp
  have d': "distinct (map fst [(''q'', 1::real)])" by simp
  show ?thesis
    by (rule conjI [OF k conjI [OF d']]) (rule exI [of _ eng'], rule conjI [OF r conjI [OF u' conjI [OF q p]]])
qed

text \<open>
  Against claim C4 as stated: the kind \<open>like\<close> takes the momentum of \<open>q\<close> from 1 to 0.99,
  so the state after the call is not the state before it.
\<close>

theorem unknown_kind_changes_state:
  "record_interaction keep_affinities 0
     \<lparr>user_interactions = [(''u'', default_user_data)], trending_patterns = [(''q'', 1)],
        emerging_creators = {}\<rparr> ''u'' ''p'' ''like'' () =
   Inr \<lparr>user_interactions = [(''u'', default_user_data)], trending_patterns = [(''q'', 0.99)],
        emerging_creators = {}\<rparr> \<and>
   \<lparr>user_interactions = [(''u'', default_user_data :: unit user_data)],
      trending_patterns = [(''q'', 0.99)], emerging_creators = {}\<rparr> \<noteq>
   \<lparr>user_interactions = [(''u'', default_user_data)], trending_patterns = [(''q'', 1)],
      emerging_creators = {}\<rparr>"
  using eval_unknown by simp

subsection \<open>Decay of the momentum\<close>




subsection \<open>The number of exploration slots\<close>

text \<open>
  Claim C6, as amended. For a target of at least 1 the number of exploration slots is
  \<^verbatim>\<open>max(2, int(0.1 * target_count))\<close>, the product being truncated, not rounded: it is the
  larger of 2 and \<open>target_count div 10\<close>.
\<close>

theorem exploration_slots_truncates:
  assumes "1 \<le> target_count"
  shows "exploration_slots target_count = max 2 (target_count div 10)"
proof -
  have "\<lfloor>of_int target_count * (0.1::real)\<rfloor> = target_count div 10"
    by (simp add: floor_divide_of_int_eq [symmetric] field_simps)
       (metis floor_divide_of_int_eq of_int_numeral)
  then show ?thesis
    using assms by (simp add: exploration_slots_def py_int_def)
qed

theorem exploration_slots_truncates_witness: "(1::int) \<le> 26 \<and> exploration_slots 26 = 2"
  using exploration_slots_truncates [of 26] by simp

text \<open>
  Against claim C6 as stated: for a target of 26 the source asks for 2 slots, and
  \<^verbatim>\<open>max(2, round(2.6))\<close> is 3.
\<close>

theorem exploration_slots_not_rounded: "exploration_slots 26 = 2 \<and> spec_exploration_slots 26 = 3"
  by (simp add: exploration_slots_def py_int_def spec_exploration_slots_def py_round_def Let_def)

subsection \<open>The length of the feed\<close>

text \<open>
  Claim C7 says that \<^verbatim>\<open>get_feed\<close> returns a sequence of at most \<open>count\<close> items. With one
  candidate in the item store the call reaches the diversity filter, which raises
  \<open>AttributeError\<close>, and no feed is returned. (The injection step alone keeps the length
  property: see \<open>inject_exploration_with_length\<close>.)
\<close>

theorem get_feed_attribute_error:
  "get_feed example_helpers (clock_at 0) no_entropy
     \<lparr>user_interactions = [], trending_patterns = [], emerging_creators = {}\<rparr> ''u'' 20 =
   Inl AttributeError"
proof -
  let ?E = "\<lparr>user_interactions = [], trending_patterns = [], emerging_creators = {}\<rparr> :: unit engine"
  obtain profile eng1 where b: "build_user_profile example_helpers ?E ''u'' = (profile, eng1)"
    by (cases "build_user_profile example_helpers ?E ''u''")
  have g: "gather_candidates example_helpers ''u'' limit = [example_item]" for limit
    by (simp add: example_helpers_def)
  have "\<exists>s. calculate_prompt_score example_helpers (clock_at 0 0) (clock_at 0 (Suc 0))
          example_item profile = Inr s"
    using calculate_prompt_score_formula [of example_item 0 "''alice''" example_helpers profile]
    by (simp add: example_item_def example_helpers_def)
  then obtain s where "calculate_prompt_score example_helpers (clock_at 0 0) (clock_at 0 (Suc 0))
          example_item profile = Inr s" ..
  then have "score_loop example_helpers (clock_at 0) 0 profile [example_item] = Inr [(s, example_item)]"
    by simp
  then show ?thesis
    by (simp add: get_feed_def b g sort_by_score_def apply_diversity_filter_raises)
qed

subsection \<open>Scores and the clock\<close>




subsection \<open>The profile of a new user\<close>



subsection \<open>Every recorded interaction decays the whole trend map\<close>



end
